theory Spec2Isabelle
  imports
    Complex_Main
    "HOL-Library.Char_ord"
    "HOL-Library.List_Lexorder"
    "HOL-Library.Product_Lexorder"
    "HOL-Library.Sublist"
begin

section \<open>Rivals recommender: the embedding of \<^verbatim>\<open>src/Rivals.py\<close>\<close>

text \<open>
  The program is Python. Its values are modelled as follows.
  \<^item> \<^verbatim>\<open>str\<close> is \<^typ>\<open>string\<close>, a character outside ASCII being the sequence of its UTF-8
    bytes. \<^verbatim>\<open>str.lower()\<close> replaces the letters A to Z by a to z; every other byte is left
    alone, as \<^verbatim>\<open>str.lower()\<close> leaves every character that is not an uppercase letter.
    Uppercase letters outside ASCII, which \<^verbatim>\<open>str.lower()\<close> replaces too, are outside the
    model.
  \<^item> \<^verbatim>\<open>float\<close> is \<^typ>\<open>real\<close>: sums, products, quotients and comparisons are the
    exact ones, so the rounding error of IEEE doubles, infinities, NaN and the overflow of
    \<^verbatim>\<open>**\<close> are outside the model. In particular a value that is an exact tie between
    two 4-digit decimals here may lie on either side of the tie as a double.
    \<^verbatim>\<open>float(v)\<close> is the identity.
  \<^item> \<^verbatim>\<open>int\<close> is \<^typ>\<open>int\<close>.
  \<^item> a \<^verbatim>\<open>dict\<close> handed to the constructor is the list of its items in insertion
    order; a stored \<^verbatim>\<open>dict\<close> is a map.
  \<^item> an exception is a value: results are of type \<open>error + 'a\<close>.
\<close>

subsection \<open>Strings\<close>

text \<open>The letters that \<^verbatim>\<open>str.lower()\<close> changes, each beside its replacement.\<close>

definition lower_table :: "(char \<times> char) list" where
  "lower_table = zip ''ABCDEFGHIJKLMNOPQRSTUVWXYZ'' ''abcdefghijklmnopqrstuvwxyz''"

definition lower_char :: "char \<Rightarrow> char" where
  "lower_char c = (case map_of lower_table c of None \<Rightarrow> c | Some d \<Rightarrow> d)"

definition lower :: "string \<Rightarrow> string" where
  "lower s = map lower_char s"

subsection \<open>Numbers\<close>

datatype error = ZeroDivisionError | TypeError

text \<open>
  \<^verbatim>\<open>b ** e\<close> on two floats. An exponent of zero gives 1 for every base; a positive base
  gives the real power; zero to a negative exponent raises ZeroDivisionError; a negative
  base gives the real power when the exponent is a whole number and a \<^verbatim>\<open>complex\<close>
  otherwise. The only use of the power in the program multiplies it by a float and hands the
  product to \<^verbatim>\<open>round(_, 4)\<close>, which raises TypeError on a \<^verbatim>\<open>complex\<close>, so the complex
  branch is modelled by that error.
\<close>

definition py_pow :: "real \<Rightarrow> real \<Rightarrow> error + real" where
  "py_pow b e =
     (if e = 0 then Inr 1
      else if 0 < b then Inr (b powr e)
      else if b = 0 then (if 0 < e then Inr 0 else Inl ZeroDivisionError)
      else if e \<in> \<int> then Inr (b powi \<lfloor>e\<rfloor>)
      else Inl TypeError)"

text \<open>
  \<^verbatim>\<open>round(x, 4)\<close>: the nearest multiple of 0.0001, a tie going to the even multiple.
\<close>

definition round_half_even :: "real \<Rightarrow> int" where
  "round_half_even y =
     (let f = \<lfloor>y\<rfloor>; d = y - of_int f
      in if d < 1 / 2 then f
         else if 1 / 2 < d then f + 1
         else if even f then f else f + 1)"

definition py_round :: "real \<Rightarrow> nat \<Rightarrow> real" where
  "py_round x ndigits = of_int (round_half_even (x * 10 ^ ndigits)) / 10 ^ ndigits"

subsection \<open>Hero\<close>

record Hero =
  name :: string
  roles :: "string list"
  map_scores :: "string \<rightharpoonup> real"
  role_proficiencies :: "string \<rightharpoonup> real"
  map_role_bonus :: "string \<times> string \<rightharpoonup> real"

text \<open>
  A dict comprehension \<^verbatim>\<open>{key(k): val(v) for k, v in d.items()}\<close> stores the items in
  order, a later item replacing an earlier one with the same new key.
\<close>

definition dict_comp :: "('k \<Rightarrow> 'j) \<Rightarrow> ('k \<times> real) list \<Rightarrow> ('j \<rightharpoonup> real)" where
  "dict_comp key items = fold (\<lambda>(k, v) m. m(key k \<mapsto> v)) items Map.empty"

text \<open>\<^verbatim>\<open>d or {}\<close> for an optional dict argument whose default is \<^verbatim>\<open>None\<close>.\<close>

definition or_empty :: "('k \<times> real) list option \<Rightarrow> ('k \<times> real) list" where
  "or_empty d = (case d of None \<Rightarrow> [] | Some items \<Rightarrow> items)"

definition Hero_init ::
  "string \<Rightarrow> string list \<Rightarrow> (string \<times> real) list option \<Rightarrow> (string \<times> real) list option
     \<Rightarrow> ((string \<times> string) \<times> real) list option \<Rightarrow> Hero" where
  "Hero_init nm rs ms rp mrb =
     \<lparr> name = nm,
       roles = map lower rs,
       map_scores = dict_comp lower (or_empty ms),
       role_proficiencies = dict_comp lower (or_empty rp),
       map_role_bonus = dict_comp (\<lambda>(m, r). (lower m, lower r)) (or_empty mrb) \<rparr>"

definition dict_get :: "('k \<rightharpoonup> real) \<Rightarrow> 'k \<Rightarrow> real \<Rightarrow> real" where
  "dict_get d k dflt = (case d k of None \<Rightarrow> dflt | Some v \<Rightarrow> v)"

definition raw_map_score :: "Hero \<Rightarrow> string \<Rightarrow> real" where
  "raw_map_score h map_name = dict_get (map_scores h) (lower map_name) 0"

definition role_proficiency :: "Hero \<Rightarrow> string \<Rightarrow> real" where
  "role_proficiency h role = dict_get (role_proficiencies h) (lower role) 0"

definition map_role_bonus_multiplier :: "Hero \<Rightarrow> string \<Rightarrow> string \<Rightarrow> real" where
  "map_role_bonus_multiplier h map_name role =
     dict_get (map_role_bonus h) (lower map_name, lower role) 1"

subsection \<open>Recommender\<close>

text \<open>
  \<^verbatim>\<open>compute_score\<close> is a closure inside \<^verbatim>\<open>recommend\<close>; the variables it captures
  (\<^verbatim>\<open>map_name\<close>, \<^verbatim>\<open>role_lc\<close> and the three weights) are its first arguments here.
\<close>

definition compute_score :: "string \<Rightarrow> string \<Rightarrow> real \<Rightarrow> real \<Rightarrow> real \<Rightarrow> Hero \<Rightarrow> error + real" where
  "compute_score map_name role_lc map_weight role_weight bonus_weight h =
     (let raw = raw_map_score h map_name;
          map_norm = max 0 (min 1 (raw / 10));
          role_prof = role_proficiency h role_lc;
          base = map_norm * map_weight + role_prof * role_weight;
          bonus = map_role_bonus_multiplier h map_name role_lc
      in case py_pow bonus (bonus_weight * 10) of
           Inl err \<Rightarrow> Inl err
         | Inr p \<Rightarrow> Inr (py_round (base * p) 4))"

text \<open>
  The list comprehension \<^verbatim>\<open>[(h, compute_score(h)) for h in candidates]\<close>: the first
  exception ends it.
\<close>

fun score_all :: "(Hero \<Rightarrow> error + real) \<Rightarrow> Hero list \<Rightarrow> error + (Hero \<times> real) list" where
  "score_all f [] = Inr []"
| "score_all f (h # hs) =
     (case f h of
        Inl err \<Rightarrow> Inl err
      | Inr s \<Rightarrow> (case score_all f hs of Inl err \<Rightarrow> Inl err | Inr rest \<Rightarrow> Inr ((h, s) # rest)))"

text \<open>The key of the sort: \<^verbatim>\<open>lambda t: (-t[1], t[0].name.lower())\<close>.\<close>

definition sort_key_of :: "Hero \<times> real \<Rightarrow> real \<times> string" where
  "sort_key_of t = (- snd t, lower (name (fst t)))"

text \<open>
  The slice \<^verbatim>\<open>xs[:n]\<close>: the first \<open>n\<close> elements, and for a negative \<open>n\<close> all but the
  last \<open>-n\<close>.
\<close>

definition slice_to :: "'a list \<Rightarrow> int \<Rightarrow> 'a list" where
  "slice_to xs n = (if 0 \<le> n then take (nat n) xs else take (length xs - nat (- n)) xs)"

definition candidates :: "Hero list \<Rightarrow> string \<Rightarrow> Hero list" where
  "candidates heroes role = filter (\<lambda>h. lower role \<in> set (roles h)) heroes"

text \<open>
  \<^verbatim>\<open>list.sort\<close> is a stable sort on the keys, which tuples compare lexicographically and
  strings character by character; \<^const>\<open>sort_key\<close> is the stable sort of the library.
\<close>

definition recommend ::
  "Hero list \<Rightarrow> string \<Rightarrow> string \<Rightarrow> int \<Rightarrow> real \<Rightarrow> real \<Rightarrow> real \<Rightarrow> error + (Hero \<times> real) list" where
  "recommend heroes role map_name top_n map_weight role_weight bonus_weight =
     (let role_lc = lower role;
          cands = candidates heroes role
      in case score_all (compute_score map_name role_lc map_weight role_weight bonus_weight) cands of
           Inl err \<Rightarrow> Inl err
         | Inr scored \<Rightarrow> Inr (slice_to (sort_key sort_key_of scored) top_n))"

subsection \<open>The dataset\<close>

definition spider_man :: Hero where
  "spider_man = Hero_init ''Spider-Man'' [''DPS'']
     (Some [(''midtown'', 9.5), (''arakko'', 7.0), (''central park'', 9.0)])
     (Some [(''DPS'', 0.95)])
     (Some [((''midtown'', ''DPS''), 1.05)])"

definition wolverine :: Hero where
  "wolverine = Hero_init ''Wolverine'' [''DPS'', ''Tank'']
     (Some [(''midtown'', 8.0), (''yggdrasill path'', 8.5), (''krakoa'', 7.5)])
     (Some [(''DPS'', 0.85), (''Tank'', 0.9)])
     None"

definition storm :: Hero where
  "storm = Hero_init ''Storm'' [''Support'', ''DPS'']
     (Some [(''central park'', 8.5), (''symbiotic surface'', 9.0)])
     (Some [(''Support'', 0.9), (''DPS'', 0.7)])
     (Some [((''symbiotic surface'', ''support''), 1.08)])"

definition doctor_strange :: Hero where
  "doctor_strange = Hero_init ''Doctor Strange'' [''Support'']
     (Some [(''central park'', 7.0), (''hall of djalia'', 8.5)])
     (Some [(''Support'', 0.92)])
     None"

definition magneto :: Hero where
  "magneto = Hero_init ''Magneto'' [''DPS'']
     (Some [(''shin-shibuya'', 8.8), (''spider-islands'', 7.9)])
     (Some [(''DPS'', 0.88)])
     (Some [((''shin-shibuya'', ''dps''), 1.12)])"

definition iron_man :: Hero where
  "iron_man = Hero_init ''Iron Man'' [''DPS'', ''Support'']
     (Some [(''central park'', 8.0), (''midtown'', 8.8), (''royal palace'', 7.2)])
     (Some [(''DPS'', 0.9), (''Support'', 0.6)])
     (Some [((''midtown'', ''dps''), 1.04)])"

definition black_panther :: Hero where
  "black_panther = Hero_init ''Black Panther'' [''DPS'', ''Support'']
     (Some [(''birnin tchalla'', 9.4), (''central park'', 7.8), (''krakoa'', 8.2)])
     (Some [(''DPS'', 0.9), (''Support'', 0.7)])
     (Some [((''birnin tchalla'', ''dps''), 1.08)])"

definition hulk :: Hero where
  "hulk = Hero_init ''Hulk'' [''Tank'', ''DPS'']
     (Some [(''krakoa'', 9.0), (''hells heaven'', 8.6), (''yggdrasill path'', 7.0)])
     (Some [(''Tank'', 0.95), (''DPS'', 0.6)])
     None"

definition scarlet_witch :: Hero where
  "scarlet_witch = Hero_init ''Scarlet Witch'' [''Support'', ''DPS'']
     (Some [(''hall of djalia'', 9.1), (''symbiotic surface'', 8.4), (''shin-shibuya'', 8.0)])
     (Some [(''Support'', 0.9), (''DPS'', 0.75)])
     (Some [((''hall of djalia'', ''support''), 1.07)])"

definition groot :: Hero where
  "groot = Hero_init ''Groot'' [''Tank'', ''Support'']
     (Some [(''royal palace'', 8.6), (''yggdrasill path'', 8.0)])
     (Some [(''Tank'', 0.88), (''Support'', 0.7)])
     None"

definition punisher :: Hero where
  "punisher = Hero_init ''Punisher'' [''DPS'']
     (Some [(''midtown'', 8.9), (''spider-islands'', 7.6), (''arakko'', 6.5)])
     (Some [(''DPS'', 0.86)])
     None"

definition black_widow :: Hero where
  "black_widow = Hero_init ''Black Widow'' [''DPS'', ''Support'']
     (Some [(''midtown'', 8.3), (''shin-shibuya'', 8.1), (''central park'', 7.5)])
     (Some [(''DPS'', 0.82), (''Support'', 0.65)])
     None"

definition HEROES :: "Hero list" where
  "HEROES = [spider_man, wolverine, storm, doctor_strange, magneto, iron_man, black_panther,
     hulk, scarlet_witch, groot, punisher, black_widow]"

subsection \<open>A dataset with two entities of the same name up to case\<close>

definition echo_lower :: Hero where
  "echo_lower = Hero_init ''echo'' [''Scout''] (Some [(''Midtown'', 5)]) None None"

definition echo_upper :: Hero where
  "echo_upper = Hero_init ''ECHO'' [''scout''] (Some [(''midtown'', 5)]) None None"

subsection \<open>Entities at the edges of the data model\<close>

text \<open>The best scores the data model allows, and no bonus.\<close>

definition ace :: Hero where
  "ace = Hero_init ''Ace'' [''DPS''] (Some [(''midtown'', 10)]) (Some [(''DPS'', 1.0)]) None"

text \<open>A proficiency above 1, which the constructor stores as it is.\<close>

definition overfit :: Hero where
  "overfit = Hero_init ''Overfit'' [''DPS''] None (Some [(''DPS'', 4)]) None"

text \<open>A negative bonus multiplier, which the constructor stores as it is.\<close>

definition hexed :: Hero where
  "hexed = Hero_init ''Hexed'' [''DPS''] None None (Some [((''Midtown'', ''DPS''), - 1)])"


subsection \<open>A role outside ASCII\<close>

text \<open>
  The UTF-8 bytes of the three characters d, p and U+017F (LATIN SMALL LETTER LONG S).
  \<^verbatim>\<open>str.upper()\<close> turns this string into DPS, and \<^verbatim>\<open>str.lower()\<close> leaves it as it is.
\<close>

definition dp_long_s :: string where
  "dp_long_s = [CHR ''d'', CHR ''p'', CHR 0xC5, CHR 0xBF]"


subsection \<open>The specification's vocabulary\<close>

text \<open>
  The power \<open>b ^ e\<close> of a base \<open>b \<ge> 0\<close> as a real number, with \<open>b ^ 0 = 1\<close> also for
  \<open>b = 0\<close>.
\<close>

definition real_power :: "real \<Rightarrow> real \<Rightarrow> real" where
  "real_power b e = (if e = 0 then 1 else b powr e)"

text \<open>
  The score as the specification writes it, from the stored data of the entity: the
  context score for the lowercased context (default 0), the proficiency for the lowercased
  role (default 0) and the bonus of the pair (default 1).
\<close>

definition spec_base :: "Hero \<Rightarrow> string \<Rightarrow> string \<Rightarrow> real \<Rightarrow> real \<Rightarrow> real" where
  "spec_base h role context mapWeight roleWeight =
     (let rawContextScore = (case map_scores h (lower context) of None \<Rightarrow> 0 | Some v \<Rightarrow> v);
          roleProficiency = (case role_proficiencies h (lower role) of None \<Rightarrow> 0 | Some v \<Rightarrow> v)
      in max 0 (min 1 (rawContextScore / 10)) * mapWeight + roleProficiency * roleWeight)"

definition spec_bonus :: "Hero \<Rightarrow> string \<Rightarrow> string \<Rightarrow> real" where
  "spec_bonus h role context =
     (case map_role_bonus h (lower context, lower role) of None \<Rightarrow> 1 | Some v \<Rightarrow> v)"

definition spec_score :: "Hero \<Rightarrow> string \<Rightarrow> string \<Rightarrow> real \<Rightarrow> real \<Rightarrow> real \<Rightarrow> real" where
  "spec_score h role context mapWeight roleWeight bonusWeight =
     py_round (spec_base h role context mapWeight roleWeight
               * real_power (spec_bonus h role context) (bonusWeight * 10)) 4"



text \<open>
  \<open>s\<close> is \<open>x\<close> rounded to \<open>ndigits\<close> decimal digits: a multiple of \<open>10 ^ - ndigits\<close> that
  is as near to \<open>x\<close> as such a multiple can be, either of the two at a tie.
\<close>

definition rounds_to :: "real \<Rightarrow> nat \<Rightarrow> real \<Rightarrow> bool" where
  "rounds_to x ndigits s \<longleftrightarrow>
     of_int \<lfloor>s * 10 ^ ndigits\<rfloor> = s * 10 ^ ndigits \<and> \<bar>s - x\<bar> * (2 * 10 ^ ndigits) \<le> 1"

text \<open>
  The queries the specification speaks of: the bonus weight is not negative, and neither is
  the bonus multiplier of any entity that can play the role. On them the power is a real
  number, and no score raises.
\<close>

definition valid_query :: "Hero list \<Rightarrow> string \<Rightarrow> string \<Rightarrow> real \<Rightarrow> bool" where
  "valid_query heroes role context bonusWeight \<longleftrightarrow>
     0 \<le> bonusWeight \<and> list_all (\<lambda>h. 0 \<le> spec_bonus h role context) (candidates heroes role)"

text \<open>
  Two strings that differ at most in the case of their ASCII letters: they have the same
  length and, place by place, the same character once lowercased.
\<close>

definition same_up_to_case :: "string \<Rightarrow> string \<Rightarrow> bool" where
  "same_up_to_case s t \<longleftrightarrow> list_all2 (\<lambda>c d. lower_char c = lower_char d) s t"

text \<open>
  The order of the result: a higher score first, and among equal scores the lowercased
  names ascending.
\<close>

definition ranked_before :: "Hero \<times> real \<Rightarrow> Hero \<times> real \<Rightarrow> bool" where
  "ranked_before a b \<longleftrightarrow>
     snd b < snd a \<or> (snd a = snd b \<and> lower (name (fst a)) \<le> lower (name (fst b)))"

section \<open>Properties\<close>

subsection \<open>Auxiliary facts\<close>

lemma lower_char_idem: "lower_char (lower_char c) = lower_char c"
  by (simp add: lower_char_def lower_table_def)

lemma lower_idem: "lower (lower s) = lower s"
  by (simp add: lower_def lower_char_idem)

lemma same_up_to_case_lower: "same_up_to_case s t \<Longrightarrow> lower s = lower t"
  unfolding same_up_to_case_def lower_def
  by (induction s t rule: list_all2_induct) simp_all

lemma score_all_Inr:
  "score_all f hs = Inr res \<Longrightarrow> map fst res = hs \<and> (\<forall>t\<in>set res. f (fst t) = Inr (snd t))"
proof (induction hs arbitrary: res)
  case Nil
  then show ?case by simp
next
  case (Cons h hs)
  then show ?case by (auto split: sum.splits)
qed

lemma score_all_total:
  "\<forall>h\<in>set hs. \<exists>s. f h = Inr s \<Longrightarrow> \<exists>res. score_all f hs = Inr res"
proof (induction hs)
  case Nil
  then show ?case by simp
next
  case (Cons h hs)
  then obtain s rest where "f h = Inr s" "score_all f hs = Inr rest" by auto
  then show ?case by simp
qed

lemma score_all_length: "score_all f hs = Inr res \<Longrightarrow> length res = length hs"
  using score_all_Inr [of f hs res] by (metis length_map)

lemma set_slice_to: "set (slice_to xs n) \<subseteq> set xs"
  by (auto simp: slice_to_def dest: in_set_takeD)

lemma slice_to_prefix: "prefix (slice_to xs n) xs"
  by (simp add: slice_to_def take_is_prefix)

lemma length_slice_to:
  "length (slice_to xs n) = (if 0 \<le> n then min (nat n) (length xs) else length xs - nat (- n))"
  by (auto simp: slice_to_def)

lemma py_pow_nonneg: "0 \<le> b \<Longrightarrow> 0 \<le> e \<Longrightarrow> py_pow b e = Inr (real_power b e)"
  by (auto simp: py_pow_def real_power_def)

lemma py_pow_one: "py_pow 1 e = Inr 1"
  by (simp add: py_pow_def)

lemma round_half_even_bounds:
  "real_of_int (round_half_even y) \<le> y + 1 / 2" "y - 1 / 2 \<le> real_of_int (round_half_even y)"
  unfolding round_half_even_def Let_def by (auto; linarith)+

lemma py_round_upper: "py_round x 4 \<le> x + 5 / 100000"
proof -
  have "real_of_int (round_half_even (x * 10 ^ 4)) \<le> x * 10 ^ 4 + 1 / 2"
    by (rule round_half_even_bounds)
  then show ?thesis by (simp add: py_round_def field_simps)
qed

lemma recommend_Inr:
  assumes "recommend heroes role map_name top_n mw rw bw = Inr res"
  obtains scored where
    "score_all (compute_score map_name (lower role) mw rw bw) (candidates heroes role) = Inr scored"
    "res = slice_to (sort_key sort_key_of scored) top_n"
  using assms by (auto simp: recommend_def Let_def split: sum.splits)

text \<open>The score of the code is the score of the specification wherever the power is real.\<close>

lemma compute_score_spec:
  assumes "0 \<le> bw" "0 \<le> spec_bonus h role context"
  shows "compute_score context (lower role) mw rw bw h = Inr (spec_score h role context mw rw bw)"
proof -
  have b: "map_role_bonus_multiplier h context (lower role) = spec_bonus h role context"
    by (simp add: map_role_bonus_multiplier_def spec_bonus_def dict_get_def lower_idem)
  have "py_pow (spec_bonus h role context) (bw * 10)
        = Inr (real_power (spec_bonus h role context) (bw * 10))"
    using assms by (intro py_pow_nonneg) simp_all
  then show ?thesis
    by (simp add: compute_score_def b spec_score_def spec_base_def raw_map_score_def
        role_proficiency_def dict_get_def lower_idem Let_def)
qed

lemma valid_query_total:
  assumes "valid_query heroes role context bw"
  shows "score_all (compute_score context (lower role) mw rw bw) (candidates heroes role)
         = Inr (map (\<lambda>h. (h, spec_score h role context mw rw bw)) (candidates heroes role))"
proof -
  have "list_all (\<lambda>h. 0 \<le> spec_bonus h role context) hs \<Longrightarrow>
        score_all (compute_score context (lower role) mw rw bw) hs
        = Inr (map (\<lambda>h. (h, spec_score h role context mw rw bw)) hs)" for hs
    using assms by (induction hs) (simp_all add: compute_score_spec valid_query_def)
  with assms show ?thesis by (simp add: valid_query_def)
qed

lemma valid_query_recommend:
  assumes "valid_query heroes role context bw"
  shows "recommend heroes role context top_n mw rw bw
         = Inr (slice_to (sort_key sort_key_of
                  (map (\<lambda>h. (h, spec_score h role context mw rw bw)) (candidates heroes role))) top_n)"
  by (simp add: recommend_def Let_def valid_query_total [OF assms])

subsection \<open>The power and the rounding of the specification\<close>






text \<open>Away from a tie only one number is \<open>x\<close> rounded.\<close>

lemma rounds_to_unique:
  assumes "rounds_to x n s" "rounds_to x n s'" "s \<noteq> s'"
  shows "\<bar>s - x\<bar> * (2 * 10 ^ n) = 1"
proof -
  define a b where "a = \<lfloor>s * 10 ^ n\<rfloor>" and "b = \<lfloor>s' * 10 ^ n\<rfloor>"
  from assms(1,2) have a: "real_of_int a = s * 10 ^ n" and b: "real_of_int b = s' * 10 ^ n"
    by (simp_all add: rounds_to_def a_def b_def)
  from assms(3) have "s * 10 ^ n \<noteq> s' * 10 ^ n" by simp
  with a b have "a \<noteq> b" by auto
  then have ab: "1 \<le> \<bar>real_of_int a - real_of_int b\<bar>" by linarith
  have da: "\<bar>real_of_int a - x * 10 ^ n\<bar> * 2 \<le> 1"
  proof -
    have "\<bar>s - x\<bar> * 10 ^ n = \<bar>(s - x) * 10 ^ n\<bar>" by (simp add: abs_mult)
    with assms(1) a show ?thesis by (simp add: rounds_to_def algebra_simps)
  qed
  have db: "\<bar>real_of_int b - x * 10 ^ n\<bar> * 2 \<le> 1"
  proof -
    have "\<bar>s' - x\<bar> * 10 ^ n = \<bar>(s' - x) * 10 ^ n\<bar>" by (simp add: abs_mult)
    with assms(2) b show ?thesis by (simp add: rounds_to_def algebra_simps)
  qed
  define y where "y = x * 10 ^ n"
  from ab da db have "\<bar>real_of_int a - y\<bar> * 2 = 1"
    unfolding y_def [symmetric] by (simp add: abs_if split: if_splits)
  then have "\<bar>real_of_int a - x * 10 ^ n\<bar> * 2 = 1" by (simp add: y_def)
  moreover have "\<bar>s - x\<bar> * 10 ^ n = \<bar>(s - x) * 10 ^ n\<bar>" by (simp add: abs_mult)
  ultimately show ?thesis using a by (simp add: algebra_simps)
qed



lemma score_all_Inr_iff:
  "(\<exists>res. score_all f hs = Inr res) \<longleftrightarrow> (\<forall>h\<in>set hs. \<exists>s. f h = Inr s)"
proof
  assume "\<exists>res. score_all f hs = Inr res"
  then obtain res where r: "score_all f hs = Inr res" ..
  show "\<forall>h\<in>set hs. \<exists>s. f h = Inr s"
  proof
    fix h
    assume "h \<in> set hs"
    with score_all_Inr [OF r] have "h \<in> fst ` set res" by (metis set_map)
    then obtain t where "t \<in> set res" "fst t = h" by auto
    with score_all_Inr [OF r] show "\<exists>s. f h = Inr s" by auto
  qed
next
  assume "\<forall>h\<in>set hs. \<exists>s. f h = Inr s"
  then show "\<exists>res. score_all f hs = Inr res" by (rule score_all_total)
qed

lemma recommend_returns_iff:
  "(\<exists>res. recommend heroes role map_name top_n mw rw bw = Inr res)
   \<longleftrightarrow> (\<forall>c\<in>set (candidates heroes role).
          \<exists>s. compute_score map_name (lower role) mw rw bw c = Inr s)"
proof -
  have "(\<exists>res. recommend heroes role map_name top_n mw rw bw = Inr res)
        \<longleftrightarrow> (\<exists>scored. score_all (compute_score map_name (lower role) mw rw bw)
                          (candidates heroes role) = Inr scored)"
    by (auto simp: recommend_def Let_def split: sum.splits)
  then show ?thesis by (simp add: score_all_Inr_iff)
qed

text \<open>With \<open>top_n\<close> the size of the dataset the result is the whole ranking.\<close>

lemma recommend_ranking:
  assumes "score_all (compute_score map_name (lower role) mw rw bw) (candidates heroes role)
           = Inr scored"
  shows "recommend heroes role map_name (int (length heroes)) mw rw bw
         = Inr (sort_key sort_key_of scored)"
proof -
  from assms have "length scored = length (candidates heroes role)" by (rule score_all_length)
  then have "length scored \<le> length heroes" by (simp add: candidates_def)
  then have "slice_to (sort_key sort_key_of scored) (int (length heroes))
             = sort_key sort_key_of scored"
    by (simp add: slice_to_def)
  with assms show ?thesis by (simp add: recommend_def Let_def)
qed

subsection \<open>Evaluating the dataset\<close>

lemmas hero_defs = spider_man_def wolverine_def storm_def doctor_strange_def magneto_def
  iron_man_def black_panther_def hulk_def scarlet_witch_def groot_def punisher_def
  black_widow_def

lemmas lower_defs = lower_def lower_char_def lower_table_def

lemmas score_defs = Hero_init_def or_empty_def dict_comp_def dict_get_def
  raw_map_score_def role_proficiency_def map_role_bonus_multiplier_def compute_score_def
  py_pow_def py_round_def round_half_even_def Let_def

lemma roles_HEROES:
  "map roles HEROES =
     [[''dps''], [''dps'', ''tank''], [''support'', ''dps''], [''support''], [''dps''],
      [''dps'', ''support''], [''dps'', ''support''], [''tank'', ''dps''],
      [''support'', ''dps''], [''tank'', ''support''], [''dps''], [''dps'', ''support'']]"
  by (simp add: HEROES_def hero_defs Hero_init_def lower_defs)

lemma lower_tank: "lower ''Tank'' = ''tank''" "lower ''TANK'' = ''tank''" "lower ''tank'' = ''tank''"
  by (simp_all add: lower_defs)

lemma candidates_tank: "candidates HEROES ''Tank'' = [wolverine, hulk, groot]"
  using roles_HEROES by (simp add: candidates_def HEROES_def lower_tank)

lemma candidates_healer: "candidates HEROES ''Healer'' = []"
proof -
  have "lower ''Healer'' = ''healer''" by (simp add: lower_defs)
  with roles_HEROES show ?thesis by (simp add: candidates_def HEROES_def)
qed

lemma tank_scores:
  "compute_score ''Krakoa'' ''tank'' (3 / 5) (7 / 20) (1 / 20) wolverine = Inr (153 / 200)"
  "compute_score ''Krakoa'' ''tank'' (3 / 5) (7 / 20) (1 / 20) hulk = Inr (349 / 400)"
  "compute_score ''Krakoa'' ''tank'' (3 / 5) (7 / 20) (1 / 20) groot = Inr (77 / 250)"
  by (simp_all add: wolverine_def hulk_def groot_def score_defs lower_defs)

lemma tank_names:
  "lower (name wolverine) = ''wolverine''" "lower (name hulk) = ''hulk''"
  "lower (name groot) = ''groot''"
  by (simp_all add: wolverine_def hulk_def groot_def Hero_init_def lower_defs)

lemma tank_bonus:
  "spec_bonus wolverine ''Tank'' ''Krakoa'' = 1" "spec_bonus hulk ''Tank'' ''Krakoa'' = 1"
  "spec_bonus groot ''Tank'' ''Krakoa'' = 1"
  by (simp_all add: spec_bonus_def wolverine_def hulk_def groot_def score_defs lower_defs)

lemma valid_tank_krakoa: "valid_query HEROES ''Tank'' ''Krakoa'' (1 / 20)"
  by (simp add: valid_query_def candidates_tank tank_bonus)

text \<open>The query for a Tank on Krakoa with the default weights, for every \<open>top_n\<close>.\<close>

lemma recommend_tank_krakoa:
  "recommend HEROES ''Tank'' ''Krakoa'' n (3 / 5) (7 / 20) (1 / 20) =
     Inr (slice_to [(hulk, 349 / 400), (wolverine, 153 / 200), (groot, 77 / 250)] n)"
  by (simp add: recommend_def Let_def lower_tank candidates_tank tank_scores sort_key_of_def
      tank_names)

subsection \<open>The claims\<close>

text \<open>
  C5. For a positive \<open>top_n\<close> the result of \<open>recommend\<close> has
  \<open>min top_n (number of candidates)\<close> entries, so all candidates are returned when fewer
  than \<open>top_n\<close> qualify. A valid query returns, and every returned result has that length.
\<close>

theorem recommend_length:
  assumes "0 < top_n"
  shows "(valid_query heroes role context bw \<longrightarrow>
            (\<exists>res. recommend heroes role context top_n mw rw bw = Inr res))
         \<and> (\<forall>res. recommend heroes role context top_n mw rw bw = Inr res \<longrightarrow>
               length res = min (nat top_n) (length (candidates heroes role)))"
proof (intro conjI impI allI)
  assume "valid_query heroes role context bw"
  then show "\<exists>res. recommend heroes role context top_n mw rw bw = Inr res"
    by (simp add: valid_query_recommend)
next
  fix res
  assume "recommend heroes role context top_n mw rw bw = Inr res"
  then obtain scored where
    s: "score_all (compute_score context (lower role) mw rw bw) (candidates heroes role) = Inr scored"
    and r: "res = slice_to (sort_key sort_key_of scored) top_n"
    by (rule recommend_Inr)
  from s have "length scored = length (candidates heroes role)" by (rule score_all_length)
  with r assms show "length res = min (nat top_n) (length (candidates heroes role))"
    by (simp add: length_slice_to)
qed

theorem recommend_length_witness:
  "(0::int) < 5 \<and> valid_query HEROES ''Tank'' ''Krakoa'' (1 / 20)
   \<and> recommend HEROES ''Tank'' ''Krakoa'' 5 (3 / 5) (7 / 20) (1 / 20)
       = Inr [(hulk, 349 / 400), (wolverine, 153 / 200), (groot, 77 / 250)]
   \<and> length [(hulk, 349 / 400 :: real), (wolverine, 153 / 200), (groot, 77 / 250)]
       = min (nat 5) (length (candidates HEROES ''Tank''))"
  using recommend_length [of 5 HEROES "''Tank''" "''Krakoa''" "1 / 20" "3 / 5" "7 / 20"]
    valid_tank_krakoa
  by (simp add: recommend_tank_krakoa slice_to_def)

text \<open>
  C2, amended. Whether \<open>recommend\<close> returns does not depend on \<open>top_n\<close>: it returns when
  the score of every candidate is computed, and raises otherwise. When it returns, the
  result for \<open>top_n = 0\<close> is empty, and the result for a negative \<open>top_n = - k\<close> is the
  whole ranking (the result for \<open>top_n\<close> the size of the dataset, one entry for each
  candidate) without its last \<open>k\<close> entries.
\<close>

theorem recommend_nonpositive_top_n:
  assumes "top_n \<le> 0"
  shows "((\<exists>res. recommend heroes role map_name top_n mw rw bw = Inr res)
            \<longleftrightarrow> (\<forall>c\<in>set (candidates heroes role).
                   \<exists>s. compute_score map_name (lower role) mw rw bw c = Inr s))
         \<and> (\<forall>res. recommend heroes role map_name top_n mw rw bw = Inr res \<longrightarrow>
               (\<exists>ranking.
                   recommend heroes role map_name (int (length heroes)) mw rw bw = Inr ranking
                   \<and> length ranking = length (candidates heroes role)
                   \<and> res = (if top_n = 0 then []
                            else take (length ranking - nat (- top_n)) ranking)))"
proof (intro conjI allI impI)
  show "(\<exists>res. recommend heroes role map_name top_n mw rw bw = Inr res)
            \<longleftrightarrow> (\<forall>c\<in>set (candidates heroes role).
                   \<exists>s. compute_score map_name (lower role) mw rw bw c = Inr s)"
    by (rule recommend_returns_iff)
next
  fix res
  assume "recommend heroes role map_name top_n mw rw bw = Inr res"
  then obtain scored where
    s: "score_all (compute_score map_name (lower role) mw rw bw) (candidates heroes role) = Inr scored"
    and r: "res = slice_to (sort_key sort_key_of scored) top_n"
    by (rule recommend_Inr)
  let ?ranking = "sort_key sort_key_of scored"
  from s have "recommend heroes role map_name (int (length heroes)) mw rw bw = Inr ?ranking"
    by (rule recommend_ranking)
  moreover from s have "length ?ranking = length (candidates heroes role)"
    by (simp add: score_all_length)
  moreover from r assms
  have "res = (if top_n = 0 then [] else take (length ?ranking - nat (- top_n)) ?ranking)"
    by (simp add: slice_to_def)
  ultimately show "\<exists>ranking.
      recommend heroes role map_name (int (length heroes)) mw rw bw = Inr ranking
      \<and> length ranking = length (candidates heroes role)
      \<and> res = (if top_n = 0 then [] else take (length ranking - nat (- top_n)) ranking)"
    by blast
qed

theorem recommend_nonpositive_top_n_witness:
  "(- 2 :: int) \<le> 0
   \<and> recommend HEROES ''Tank'' ''Krakoa'' (- 2) (3 / 5) (7 / 20) (1 / 20) = Inr [(hulk, 349 / 400)]
   \<and> recommend HEROES ''Tank'' ''Krakoa'' (int (length HEROES)) (3 / 5) (7 / 20) (1 / 20)
       = Inr [(hulk, 349 / 400), (wolverine, 153 / 200), (groot, 77 / 250)]
   \<and> length [(hulk, 349 / 400 :: real), (wolverine, 153 / 200), (groot, 77 / 250)]
       = length (candidates HEROES ''Tank'')
   \<and> [(hulk, 349 / 400 :: real)]
       = take (length [(hulk, 349 / 400 :: real), (wolverine, 153 / 200), (groot, 77 / 250)]
               - nat (- (- 2)))
           [(hulk, 349 / 400), (wolverine, 153 / 200), (groot, 77 / 250)]
   \<and> recommend HEROES ''Tank'' ''Krakoa'' 0 (3 / 5) (7 / 20) (1 / 20) = Inr []
   \<and> compute_score ''Krakoa'' (lower ''Tank'') (3 / 5) (7 / 20) (1 / 20) wolverine = Inr (153 / 200)
   \<and> compute_score ''Krakoa'' (lower ''Tank'') (3 / 5) (7 / 20) (1 / 20) hulk = Inr (349 / 400)
   \<and> compute_score ''Krakoa'' (lower ''Tank'') (3 / 5) (7 / 20) (1 / 20) groot = Inr (77 / 250)"
proof -
  note neg = recommend_nonpositive_top_n
    [of "- 2" HEROES "''Tank''" "''Krakoa''" "3 / 5" "7 / 20" "1 / 20"]
  note zero = recommend_nonpositive_top_n
    [of 0 HEROES "''Tank''" "''Krakoa''" "3 / 5" "7 / 20" "1 / 20"]
  have len: "int (length HEROES) = 12" by (simp add: HEROES_def)
  have r: "recommend HEROES ''Tank'' ''Krakoa'' (- 2) (3 / 5) (7 / 20) (1 / 20)
      = Inr [(hulk, 349 / 400)]"
    by (simp add: recommend_tank_krakoa slice_to_def)
  have full: "recommend HEROES ''Tank'' ''Krakoa'' (int (length HEROES)) (3 / 5) (7 / 20) (1 / 20)
      = Inr [(hulk, 349 / 400), (wolverine, 153 / 200), (groot, 77 / 250)]"
    unfolding len by (simp add: recommend_tank_krakoa slice_to_def)
  from neg r obtain ranking where
    rk: "recommend HEROES ''Tank'' ''Krakoa'' (int (length HEROES)) (3 / 5) (7 / 20) (1 / 20)
         = Inr ranking"
    and l: "length ranking = length (candidates HEROES ''Tank'')"
    and e: "[(hulk, 349 / 400)] = take (length ranking - nat (- (- 2))) ranking"
    by auto
  from rk full have "ranking = [(hulk, 349 / 400), (wolverine, 153 / 200), (groot, 77 / 250)]"
    by simp
  with l e
  have t: "length [(hulk, 349 / 400 :: real), (wolverine, 153 / 200), (groot, 77 / 250)]
       = length (candidates HEROES ''Tank'')"
    "[(hulk, 349 / 400 :: real)]
       = take (length [(hulk, 349 / 400 :: real), (wolverine, 153 / 200), (groot, 77 / 250)]
               - nat (- (- 2)))
           [(hulk, 349 / 400), (wolverine, 153 / 200), (groot, 77 / 250)]"
    by blast+
  have z: "recommend HEROES ''Tank'' ''Krakoa'' 0 (3 / 5) (7 / 20) (1 / 20) = Inr []"
    by (simp add: recommend_tank_krakoa slice_to_def)
  have c: "compute_score ''Krakoa'' (lower ''Tank'') (3 / 5) (7 / 20) (1 / 20) wolverine
        = Inr (153 / 200)"
    "compute_score ''Krakoa'' (lower ''Tank'') (3 / 5) (7 / 20) (1 / 20) hulk = Inr (349 / 400)"
    "compute_score ''Krakoa'' (lower ''Tank'') (3 / 5) (7 / 20) (1 / 20) groot = Inr (77 / 250)"
    by (simp_all add: lower_tank tank_scores)
  from zero z have "\<forall>c\<in>set (candidates HEROES ''Tank'').
      \<exists>s. compute_score ''Krakoa'' (lower ''Tank'') (3 / 5) (7 / 20) (1 / 20) c = Inr s"
    by blast
  moreover have "(- 2 :: int) \<le> 0" by simp
  ultimately show ?thesis using r full t z c by blast
qed

text \<open>
  C2 as stated fails: with \<open>top_n = - 1\<close> the query for a Tank on Krakoa returns two of
  its three candidates.
\<close>

theorem recommend_negative_top_n_counterexample:
  "(- 1 :: int) \<le> 0
   \<and> recommend HEROES ''Tank'' ''Krakoa'' (- 1) (3 / 5) (7 / 20) (1 / 20)
       = Inr [(hulk, 349 / 400), (wolverine, 153 / 200)]
   \<and> recommend HEROES ''Tank'' ''Krakoa'' (- 1) (3 / 5) (7 / 20) (1 / 20) \<noteq> Inr []"
  by (simp add: recommend_tank_krakoa slice_to_def)

text \<open>
  C3. An entity is a candidate exactly when it is in the dataset and the lowercased role is
  among its stored roles; only candidates appear in a result; on a valid query with
  \<open>top_n\<close> at least the size of the dataset every candidate appears; and when there is no
  candidate the result is the empty sequence.
\<close>

theorem candidate_iff_role:
  "(h \<in> set (candidates heroes role) \<longleftrightarrow> h \<in> set heroes \<and> lower role \<in> set (roles h))
   \<and> (\<forall>res. recommend heroes role context top_n mw rw bw = Inr res \<longrightarrow>
         fst ` set res \<subseteq> set (candidates heroes role))
   \<and> (valid_query heroes role context bw \<and> int (length heroes) \<le> top_n \<longrightarrow>
         (\<exists>res. recommend heroes role context top_n mw rw bw = Inr res
            \<and> fst ` set res = set (candidates heroes role)))
   \<and> (candidates heroes role = [] \<longrightarrow> recommend heroes role context top_n mw rw bw = Inr [])"
proof (intro conjI impI allI)
  show "h \<in> set (candidates heroes role) \<longleftrightarrow> h \<in> set heroes \<and> lower role \<in> set (roles h)"
    by (simp add: candidates_def)
next
  fix res
  assume "recommend heroes role context top_n mw rw bw = Inr res"
  then obtain scored where
    s: "score_all (compute_score context (lower role) mw rw bw) (candidates heroes role) = Inr scored"
    and r: "res = slice_to (sort_key sort_key_of scored) top_n"
    by (rule recommend_Inr)
  from r have "set res \<subseteq> set scored"
    using set_slice_to [of "sort_key sort_key_of scored" top_n] by simp
  then have "fst ` set res \<subseteq> set (map fst scored)" by auto
  with score_all_Inr [OF s] show "fst ` set res \<subseteq> set (candidates heroes role)" by simp
next
  assume a: "valid_query heroes role context bw \<and> int (length heroes) \<le> top_n"
  let ?scored = "map (\<lambda>h. (h, spec_score h role context mw rw bw)) (candidates heroes role)"
  have "length (sort_key sort_key_of ?scored) \<le> length heroes" by (simp add: candidates_def)
  with a have "length (sort_key sort_key_of ?scored) \<le> nat top_n" by linarith
  with a have "slice_to (sort_key sort_key_of ?scored) top_n = sort_key sort_key_of ?scored"
    by (simp add: slice_to_def)
  with a have "recommend heroes role context top_n mw rw bw = Inr (sort_key sort_key_of ?scored)"
    by (simp add: valid_query_recommend)
  moreover have "fst ` set (sort_key sort_key_of ?scored) = set (candidates heroes role)"
    by (simp add: image_image)
  ultimately show "\<exists>res. recommend heroes role context top_n mw rw bw = Inr res
            \<and> fst ` set res = set (candidates heroes role)"
    by blast
next
  assume "candidates heroes role = []"
  then show "recommend heroes role context top_n mw rw bw = Inr []"
    by (simp add: recommend_def Let_def slice_to_def)
qed

theorem candidate_iff_role_witness:
  "hulk \<in> set (candidates HEROES ''Tank'') \<and> hulk \<in> set HEROES \<and> lower ''Tank'' \<in> set (roles hulk)
   \<and> valid_query HEROES ''Tank'' ''Krakoa'' (1 / 20) \<and> int (length HEROES) \<le> 12
   \<and> recommend HEROES ''Tank'' ''Krakoa'' 12 (3 / 5) (7 / 20) (1 / 20)
       = Inr [(hulk, 349 / 400), (wolverine, 153 / 200), (groot, 77 / 250)]
   \<and> fst ` set [(hulk, 349 / 400 :: real), (wolverine, 153 / 200), (groot, 77 / 250)]
       = set (candidates HEROES ''Tank'')
   \<and> candidates HEROES ''Healer'' = []
   \<and> recommend HEROES ''Healer'' ''Krakoa'' 3 (3 / 5) (7 / 20) (1 / 20) = Inr []"
proof -
  have len: "int (length HEROES) \<le> 12" and mem: "hulk \<in> set HEROES"
    by (simp_all add: HEROES_def)
  have r: "recommend HEROES ''Tank'' ''Krakoa'' 12 (3 / 5) (7 / 20) (1 / 20)
       = Inr [(hulk, 349 / 400), (wolverine, 153 / 200), (groot, 77 / 250)]"
    by (simp add: recommend_tank_krakoa slice_to_def)
  have c: "hulk \<in> set (candidates HEROES ''Tank'')"
    by (simp add: candidates_tank)
  note tank = candidate_iff_role [of hulk HEROES "''Tank''" "''Krakoa''" 12 "3 / 5" "7 / 20" "1 / 20"]
  note healer = candidate_iff_role [of hulk HEROES "''Healer''" "''Krakoa''" 3 "3 / 5" "7 / 20" "1 / 20"]
  from tank c have "lower ''Tank'' \<in> set (roles hulk)" by blast
  moreover from tank valid_tank_krakoa len r
  have "fst ` set [(hulk, 349 / 400 :: real), (wolverine, 153 / 200), (groot, 77 / 250)]
       = set (candidates HEROES ''Tank'')"
    by auto
  moreover from healer candidates_healer
  have "recommend HEROES ''Healer'' ''Krakoa'' 3 (3 / 5) (7 / 20) (1 / 20) = Inr []" by blast
  ultimately show ?thesis
    using c mem valid_tank_krakoa len r candidates_healer by blast
qed

subsection \<open>Order of the result\<close>

lemma sort_key_of_le: "sort_key_of a \<le> sort_key_of b \<Longrightarrow> ranked_before a b"
  by (auto simp: sort_key_of_def ranked_before_def less_eq_prod_def)

lemma sorted_wrt_prefix: "prefix xs ys \<Longrightarrow> sorted_wrt R ys \<Longrightarrow> sorted_wrt R xs"
  by (auto simp: prefix_def sorted_wrt_append)

lemma ranked_sort_key: "sorted_wrt ranked_before (sort_key sort_key_of xs)"
proof -
  have "sorted (map sort_key_of (sort_key sort_key_of xs))" by (rule sorted_sort_key)
  then have "sorted_wrt (\<lambda>a b. sort_key_of a \<le> sort_key_of b) (sort_key sort_key_of xs)"
    by (simp add: sorted_map)
  then show ?thesis by (rule sorted_wrt_mono_rel [rotated]) (simp add: sort_key_of_le)
qed

lemma score_all_filter:
  "score_all f hs = Inr res \<Longrightarrow>
   map fst (filter (\<lambda>t. snd t = s \<and> P (fst t)) res) = filter (\<lambda>h. f h = Inr s \<and> P h) hs"
proof (induction hs arbitrary: res)
  case Nil
  then show ?case by simp
next
  case (Cons h hs)
  then show ?case by (auto split: sum.splits)
qed

lemma lower_support: "lower ''Support'' = ''support''" "lower ''support'' = ''support''"
  by (simp_all add: lower_defs)

lemma candidates_support:
  "candidates HEROES ''Support'' =
     [storm, doctor_strange, iron_man, black_panther, scarlet_witch, groot, black_widow]"
  using roles_HEROES by (simp add: candidates_def HEROES_def lower_support)

lemma support_scores:
  "compute_score ''Midtown'' ''support'' (3 / 5) (7 / 20) (1 / 20) storm = Inr (63 / 200)"
  "compute_score ''Midtown'' ''support'' (3 / 5) (7 / 20) (1 / 20) doctor_strange = Inr (161 / 500)"
  "compute_score ''Midtown'' ''support'' (3 / 5) (7 / 20) (1 / 20) iron_man = Inr (369 / 500)"
  "compute_score ''Midtown'' ''support'' (3 / 5) (7 / 20) (1 / 20) black_panther = Inr (49 / 200)"
  "compute_score ''Midtown'' ''support'' (3 / 5) (7 / 20) (1 / 20) scarlet_witch = Inr (63 / 200)"
  "compute_score ''Midtown'' ''support'' (3 / 5) (7 / 20) (1 / 20) groot = Inr (49 / 200)"
  "compute_score ''Midtown'' ''support'' (3 / 5) (7 / 20) (1 / 20) black_widow = Inr (1451 / 2000)"
  by (simp_all add: hero_defs score_defs lower_defs)

lemma support_names:
  "lower (name storm) = ''storm''" "lower (name doctor_strange) = ''doctor strange''"
  "lower (name iron_man) = ''iron man''" "lower (name black_panther) = ''black panther''"
  "lower (name scarlet_witch) = ''scarlet witch''" "lower (name groot) = ''groot''"
  "lower (name black_widow) = ''black widow''"
  by (simp_all add: hero_defs Hero_init_def lower_defs)

text \<open>The query for a Support on Midtown with the default weights, for every \<open>top_n\<close>.\<close>

lemma recommend_support_midtown:
  "recommend HEROES ''Support'' ''Midtown'' n (3 / 5) (7 / 20) (1 / 20) =
     Inr (slice_to [(iron_man, 369 / 500), (black_widow, 1451 / 2000), (doctor_strange, 161 / 500),
                    (scarlet_witch, 63 / 200), (storm, 63 / 200), (black_panther, 49 / 200),
                    (groot, 49 / 200)] n)"
  by (simp add: recommend_def Let_def lower_support candidates_support support_scores
      sort_key_of_def support_names)

text \<open>
  C4. A returned result is ranked: of two entries the earlier has the higher score, or the
  same score and a lowercased name that is not greater.
\<close>

theorem recommend_sorted:
  assumes "recommend heroes role context top_n mw rw bw = Inr res"
  shows "sorted_wrt ranked_before res"
proof -
  from assms obtain scored where "res = slice_to (sort_key sort_key_of scored) top_n"
    by (rule recommend_Inr)
  then have "prefix res (sort_key sort_key_of scored)" by (simp add: slice_to_prefix)
  then show ?thesis using ranked_sort_key by (rule sorted_wrt_prefix)
qed

theorem recommend_sorted_witness:
  "recommend HEROES ''Support'' ''Midtown'' 5 (3 / 5) (7 / 20) (1 / 20)
     = Inr [(iron_man, 369 / 500), (black_widow, 1451 / 2000), (doctor_strange, 161 / 500),
            (scarlet_witch, 63 / 200), (storm, 63 / 200)]
   \<and> sorted_wrt ranked_before
       [(iron_man, 369 / 500), (black_widow, 1451 / 2000), (doctor_strange, 161 / 500),
        (scarlet_witch, 63 / 200), (storm, 63 / 200)]"
proof -
  have r: "recommend HEROES ''Support'' ''Midtown'' 5 (3 / 5) (7 / 20) (1 / 20)
     = Inr [(iron_man, 369 / 500), (black_widow, 1451 / 2000), (doctor_strange, 161 / 500),
            (scarlet_witch, 63 / 200), (storm, 63 / 200)]"
    by (simp add: recommend_support_midtown slice_to_def)
  from r recommend_sorted [OF r] show ?thesis by (rule conjI)
qed

text \<open>
  C10. Among the entries of a returned result, those with one score and one lowercased
  name stand in the order of the dataset: they are the first entities of the dataset, in its
  order, that can play the role and have that score and that lowercased name.
\<close>

theorem recommend_stable:
  assumes "recommend heroes role context top_n mw rw bw = Inr res"
  shows "prefix (map fst (filter (\<lambda>t. snd t = s \<and> lower (name (fst t)) = nm) res))
           (filter (\<lambda>h. lower role \<in> set (roles h)
                        \<and> compute_score context (lower role) mw rw bw h = Inr s
                        \<and> lower (name h) = nm) heroes)"
proof -
  let ?P = "\<lambda>t. snd t = s \<and> lower (name (fst t)) = nm"
  from assms obtain scored where
    sc: "score_all (compute_score context (lower role) mw rw bw) (candidates heroes role) = Inr scored"
    and r: "res = slice_to (sort_key sort_key_of scored) top_n"
    by (rule recommend_Inr)
  have key: "?P = (\<lambda>t. sort_key_of t = (- s, nm))"
    by (auto simp: sort_key_of_def)
  from r have "prefix res (sort_key sort_key_of scored)" by (simp add: slice_to_prefix)
  then have "prefix (filter ?P res) (filter ?P (sort_key sort_key_of scored))"
    by (rule filter_mono_prefix)
  also have "filter ?P (sort_key sort_key_of scored) = filter ?P scored"
    unfolding key by (rule sort_key_stable)
  finally have "prefix (map fst (filter ?P res)) (map fst (filter ?P scored))"
    by (rule map_mono_prefix)
  also have "map fst (filter ?P scored)
      = filter (\<lambda>h. compute_score context (lower role) mw rw bw h = Inr s \<and> lower (name h) = nm)
          (candidates heroes role)"
    using sc by (rule score_all_filter)
  also have "\<dots> = filter (\<lambda>h. lower role \<in> set (roles h)
                        \<and> compute_score context (lower role) mw rw bw h = Inr s
                        \<and> lower (name h) = nm) heroes"
    by (simp add: candidates_def conj_commute conj_left_commute)
  finally show ?thesis .
qed

lemma recommend_echo:
  "recommend [echo_lower, echo_upper] ''Scout'' ''MIDTOWN'' 3 (3 / 5) (7 / 20) (1 / 20)
     = Inr [(echo_lower, 3 / 10), (echo_upper, 3 / 10)]"
  by (simp add: recommend_def candidates_def sort_key_of_def slice_to_def echo_lower_def
      echo_upper_def score_defs lower_defs)

theorem recommend_stable_witness:
  "recommend [echo_lower, echo_upper] ''Scout'' ''MIDTOWN'' 3 (3 / 5) (7 / 20) (1 / 20)
     = Inr [(echo_lower, 3 / 10), (echo_upper, 3 / 10)]
   \<and> prefix (map fst (filter (\<lambda>t. snd t = 3 / 10 \<and> lower (name (fst t)) = ''echo'')
                [(echo_lower, 3 / 10), (echo_upper, 3 / 10)]))
        (filter (\<lambda>h. lower ''Scout'' \<in> set (roles h)
                     \<and> compute_score ''MIDTOWN'' (lower ''Scout'') (3 / 5) (7 / 20) (1 / 20) h
                         = Inr (3 / 10)
                     \<and> lower (name h) = ''echo'') [echo_lower, echo_upper])
   \<and> map fst (filter (\<lambda>t. snd t = 3 / 10 \<and> lower (name (fst t)) = ''echo'')
                [(echo_lower, 3 / 10 :: real), (echo_upper, 3 / 10)]) = [echo_lower, echo_upper]"
proof -
  have n: "lower (name echo_lower) = ''echo''" "lower (name echo_upper) = ''echo''"
    by (simp_all add: echo_lower_def echo_upper_def Hero_init_def lower_defs)
  from recommend_echo recommend_stable [OF recommend_echo, of "3 / 10" "''echo''"]
  show ?thesis by (simp add: n)
qed

subsection \<open>Case of the arguments and of the stored keys\<close>

lemma compute_score_cong_lower:
  "lower context = lower context' \<Longrightarrow>
   compute_score context role_lc mw rw bw h = compute_score context' role_lc mw rw bw h"
  by (simp add: compute_score_def raw_map_score_def map_role_bonus_multiplier_def)

lemma recommend_cong_lower:
  assumes "lower role = lower role'" "lower context = lower context'"
  shows "recommend heroes role context top_n mw rw bw
         = recommend heroes role' context' top_n mw rw bw"
proof -
  have "candidates heroes role = candidates heroes role'"
    using assms(1) by (simp add: candidates_def)
  moreover have "compute_score context (lower role) mw rw bw
                 = compute_score context' (lower role') mw rw bw"
    using assms compute_score_cong_lower [of "context" "context'"] by auto
  ultimately show ?thesis by (simp add: recommend_def)
qed

lemma dom_fold_upd:
  "dom (fold (\<lambda>(k, v) m. m(key k \<mapsto> v)) items m0) = dom m0 \<union> key ` fst ` set items"
  by (induction items arbitrary: m0) (auto simp: image_iff)

lemma dom_dict_comp: "dom (dict_comp key items) = key ` fst ` set items"
  by (simp add: dict_comp_def dom_fold_upd)

text \<open>
  C8, amended. Two roles and two contexts that differ at most in the case of their ASCII
  letters give the same result. The constructor stores every role and every key of its
  three dicts lowercased, and an entity built from a list of roles is a candidate exactly
  when one of these roles is the requested one up to that case.
\<close>

theorem recommend_case_insensitive:
  "(same_up_to_case role role' \<and> same_up_to_case context context' \<longrightarrow>
      recommend heroes role context top_n mw rw bw
      = recommend heroes role' context' top_n mw rw bw)
   \<and> (\<forall>r\<in>set (roles (Hero_init nm rs ms rp mrb)). lower r = r)
   \<and> (\<forall>k\<in>dom (map_scores (Hero_init nm rs ms rp mrb)). lower k = k)
   \<and> (\<forall>k\<in>dom (role_proficiencies (Hero_init nm rs ms rp mrb)). lower k = k)
   \<and> (\<forall>k\<in>dom (map_role_bonus (Hero_init nm rs ms rp mrb)).
         lower (fst k) = fst k \<and> lower (snd k) = snd k)
   \<and> (Hero_init nm rs ms rp mrb \<in> set (candidates [Hero_init nm rs ms rp mrb] role)
        \<longleftrightarrow> (\<exists>r\<in>set rs. lower r = lower role))"
proof (intro conjI impI)
  assume "same_up_to_case role role' \<and> same_up_to_case context context'"
  then have "lower role = lower role'" "lower context = lower context'"
    by (simp_all add: same_up_to_case_lower)
  then show "recommend heroes role context top_n mw rw bw
      = recommend heroes role' context' top_n mw rw bw"
    by (rule recommend_cong_lower)
next
  show "\<forall>r\<in>set (roles (Hero_init nm rs ms rp mrb)). lower r = r"
    by (auto simp: Hero_init_def lower_idem)
  show "\<forall>k\<in>dom (map_scores (Hero_init nm rs ms rp mrb)). lower k = k"
    by (auto simp: Hero_init_def dom_dict_comp lower_idem)
  show "\<forall>k\<in>dom (role_proficiencies (Hero_init nm rs ms rp mrb)). lower k = k"
    by (auto simp: Hero_init_def dom_dict_comp lower_idem)
  show "\<forall>k\<in>dom (map_role_bonus (Hero_init nm rs ms rp mrb)).
         lower (fst k) = fst k \<and> lower (snd k) = snd k"
    by (auto simp: Hero_init_def dom_dict_comp lower_idem)
  show "Hero_init nm rs ms rp mrb \<in> set (candidates [Hero_init nm rs ms rp mrb] role)
        \<longleftrightarrow> (\<exists>r\<in>set rs. lower r = lower role)"
    by (auto simp: candidates_def Hero_init_def) (metis imageI)
qed

lemma same_up_to_case_examples:
  "same_up_to_case ''TANK'' ''Tank''" "same_up_to_case ''kraKOA'' ''Krakoa''"
  by (simp_all add: same_up_to_case_def lower_char_def lower_table_def)

lemma hulk_stored:
  "roles hulk = [''tank'', ''dps'']" "map_scores hulk ''krakoa'' = Some 9"
  "role_proficiencies hulk ''tank'' = Some (19 / 20)"
  by (simp_all add: hulk_def Hero_init_def or_empty_def dict_comp_def lower_defs)

lemma spider_man_stored: "map_role_bonus spider_man (''midtown'', ''dps'') = Some (21 / 20)"
  by (simp add: spider_man_def Hero_init_def or_empty_def dict_comp_def lower_defs)

theorem recommend_case_insensitive_witness:
  "same_up_to_case ''TANK'' ''Tank'' \<and> same_up_to_case ''kraKOA'' ''Krakoa''
   \<and> recommend HEROES ''TANK'' ''kraKOA'' 3 (3 / 5) (7 / 20) (1 / 20)
      = Inr [(hulk, 349 / 400), (wolverine, 153 / 200), (groot, 77 / 250)]
   \<and> recommend HEROES ''Tank'' ''Krakoa'' 3 (3 / 5) (7 / 20) (1 / 20)
      = Inr [(hulk, 349 / 400), (wolverine, 153 / 200), (groot, 77 / 250)]
   \<and> roles hulk = [''tank'', ''dps''] \<and> lower ''tank'' = ''tank'' \<and> lower ''dps'' = ''dps''
   \<and> map_scores hulk ''krakoa'' = Some 9 \<and> lower ''krakoa'' = ''krakoa''
   \<and> role_proficiencies hulk ''tank'' = Some (19 / 20)
   \<and> map_role_bonus spider_man (''midtown'', ''dps'') = Some (21 / 20)
   \<and> lower ''midtown'' = ''midtown''"
proof -
  have r: "recommend HEROES ''Tank'' ''Krakoa'' 3 (3 / 5) (7 / 20) (1 / 20)
      = Inr [(hulk, 349 / 400), (wolverine, 153 / 200), (groot, 77 / 250)]"
    by (simp add: recommend_tank_krakoa slice_to_def)
  note h = recommend_case_insensitive [of "''TANK''" "''Tank''" "''kraKOA''" "''Krakoa''" HEROES 3
      "3 / 5" "7 / 20" "1 / 20" "''Hulk''" "[''Tank'', ''DPS'']"
      "Some [(''krakoa'', 9.0), (''hells heaven'', 8.6), (''yggdrasill path'', 7.0)]"
      "Some [(''Tank'', 0.95), (''DPS'', 0.6)]" None, folded hulk_def]
  note s = recommend_case_insensitive [of "''TANK''" "''Tank''" "''kraKOA''" "''Krakoa''" HEROES 3
      "3 / 5" "7 / 20" "1 / 20" "''Spider-Man''" "[''DPS'']"
      "Some [(''midtown'', 9.5), (''arakko'', 7.0), (''central park'', 9.0)]"
      "Some [(''DPS'', 0.95)]" "Some [((''midtown'', ''DPS''), 1.05)]", folded spider_man_def]
  from h same_up_to_case_examples r
  have "recommend HEROES ''TANK'' ''kraKOA'' 3 (3 / 5) (7 / 20) (1 / 20)
      = Inr [(hulk, 349 / 400), (wolverine, 153 / 200), (groot, 77 / 250)]"
    by simp
  moreover from h have "lower ''tank'' = ''tank''" "lower ''dps'' = ''dps''"
    by (simp_all add: hulk_stored)
  moreover from h hulk_stored(2) have "lower ''krakoa'' = ''krakoa''" by blast
  moreover from s spider_man_stored have "lower ''midtown'' = ''midtown''" by force
  ultimately show ?thesis
    using same_up_to_case_examples r hulk_stored spider_man_stored by simp
qed

subsection \<open>Defaults and bounds of the score\<close>

lemma compute_score_no_bonus:
  assumes "map_role_bonus h (lower map_name, lower role_lc) = None"
  shows "compute_score map_name role_lc mw rw bw h
         = Inr (py_round (max 0 (min 1 (raw_map_score h map_name / 10)) * mw
                          + role_proficiency h role_lc * rw) 4)"
  using assms
  by (simp add: compute_score_def map_role_bonus_multiplier_def dict_get_def py_pow_one)

text \<open>
  C7. A missing context score counts as 0, so the context term leaves the score; a
  missing proficiency counts as 0, so the role term leaves the score; a missing bonus counts
  as 1, and then the score is the rounded base and no exception is raised; with all three
  missing the score is 0. An exception is raised only for an entity that has a bonus entry
  for the pair.
\<close>

theorem missing_data_defaults:
  "(map_scores h (lower map_name) = None \<longrightarrow>
      raw_map_score h map_name = 0
      \<and> compute_score map_name (lower role) mw rw bw h
        = (case py_pow (map_role_bonus_multiplier h map_name (lower role)) (bw * 10) of
             Inl err \<Rightarrow> Inl err
           | Inr p \<Rightarrow> Inr (py_round (role_proficiency h (lower role) * rw * p) 4)))
   \<and> (role_proficiencies h (lower role) = None \<longrightarrow>
      role_proficiency h (lower role) = 0
      \<and> compute_score map_name (lower role) mw rw bw h
        = (case py_pow (map_role_bonus_multiplier h map_name (lower role)) (bw * 10) of
             Inl err \<Rightarrow> Inl err
           | Inr p \<Rightarrow> Inr (py_round (max 0 (min 1 (raw_map_score h map_name / 10)) * mw * p) 4)))
   \<and> (map_role_bonus h (lower map_name, lower role) = None \<longrightarrow>
      map_role_bonus_multiplier h map_name (lower role) = 1
      \<and> compute_score map_name (lower role) mw rw bw h
        = Inr (py_round (max 0 (min 1 (raw_map_score h map_name / 10)) * mw
                         + role_proficiency h (lower role) * rw) 4))
   \<and> (map_scores h (lower map_name) = None \<and> role_proficiencies h (lower role) = None
       \<and> map_role_bonus h (lower map_name, lower role) = None \<longrightarrow>
      compute_score map_name (lower role) mw rw bw h = Inr 0)
   \<and> (\<forall>err. compute_score map_name (lower role) mw rw bw h = Inl err \<longrightarrow>
         map_role_bonus h (lower map_name, lower role) \<noteq> None)"
proof (intro conjI impI allI)
  assume a: "map_scores h (lower map_name) = None"
  then show "raw_map_score h map_name = 0"
    by (simp add: raw_map_score_def dict_get_def)
  then show "compute_score map_name (lower role) mw rw bw h
        = (case py_pow (map_role_bonus_multiplier h map_name (lower role)) (bw * 10) of
             Inl err \<Rightarrow> Inl err
           | Inr p \<Rightarrow> Inr (py_round (role_proficiency h (lower role) * rw * p) 4))"
    by (simp add: compute_score_def split: sum.splits)
next
  assume a: "role_proficiencies h (lower role) = None"
  then show "role_proficiency h (lower role) = 0"
    by (simp add: role_proficiency_def dict_get_def lower_idem)
  then show "compute_score map_name (lower role) mw rw bw h
        = (case py_pow (map_role_bonus_multiplier h map_name (lower role)) (bw * 10) of
             Inl err \<Rightarrow> Inl err
           | Inr p \<Rightarrow> Inr (py_round (max 0 (min 1 (raw_map_score h map_name / 10)) * mw * p) 4))"
    by (simp add: compute_score_def split: sum.splits)
next
  assume a: "map_role_bonus h (lower map_name, lower role) = None"
  then show "map_role_bonus_multiplier h map_name (lower role) = 1"
    by (simp add: map_role_bonus_multiplier_def dict_get_def lower_idem)
  from a show "compute_score map_name (lower role) mw rw bw h
        = Inr (py_round (max 0 (min 1 (raw_map_score h map_name / 10)) * mw
                         + role_proficiency h (lower role) * rw) 4)"
    by (intro compute_score_no_bonus) (simp add: lower_idem)
next
  assume a: "map_scores h (lower map_name) = None \<and> role_proficiencies h (lower role) = None
       \<and> map_role_bonus h (lower map_name, lower role) = None"
  then have "compute_score map_name (lower role) mw rw bw h
        = Inr (py_round (max 0 (min 1 (raw_map_score h map_name / 10)) * mw
                         + role_proficiency h (lower role) * rw) 4)"
    by (intro compute_score_no_bonus) (simp add: lower_idem)
  with a show "compute_score map_name (lower role) mw rw bw h = Inr 0"
    by (simp add: raw_map_score_def role_proficiency_def dict_get_def lower_idem py_round_def
        round_half_even_def)
next
  fix err
  assume e: "compute_score map_name (lower role) mw rw bw h = Inl err"
  show "map_role_bonus h (lower map_name, lower role) \<noteq> None"
  proof
    assume "map_role_bonus h (lower map_name, lower role) = None"
    then have "compute_score map_name (lower role) mw rw bw h
        = Inr (py_round (max 0 (min 1 (raw_map_score h map_name / 10)) * mw
                         + role_proficiency h (lower role) * rw) 4)"
      by (intro compute_score_no_bonus) (simp add: lower_idem)
    with e show False by simp
  qed
qed

lemma lower_dps: "lower ''DPS'' = ''dps''" "lower ''dps'' = ''dps''"
  by (simp_all add: lower_defs)

lemma lower_scout: "lower ''Scout'' = ''scout''"
  by (simp add: lower_defs)

lemma lower_maps: "lower ''Midtown'' = ''midtown''" "lower ''midtown'' = ''midtown''"
  "lower ''Krakoa'' = ''krakoa''"
  by (simp_all add: lower_defs)

lemma magneto_stored:
  "map_scores magneto ''midtown'' = None" "role_proficiencies magneto ''dps'' = Some (22 / 25)"
  "map_role_bonus magneto (''midtown'', ''dps'') = None"
  by (simp_all add: magneto_def Hero_init_def or_empty_def dict_comp_def lower_defs)

lemma echo_stored:
  "map_scores echo_lower ''midtown'' = Some 5" "map_scores echo_lower ''krakoa'' = None"
  "role_proficiencies echo_lower ''scout'' = None"
  "map_role_bonus echo_lower (''midtown'', ''scout'') = None"
  "map_role_bonus echo_lower (''krakoa'', ''scout'') = None"
  by (simp_all add: echo_lower_def Hero_init_def or_empty_def dict_comp_def lower_defs)

lemma hexed_stored: "map_role_bonus hexed (''midtown'', ''dps'') = Some (- 1)"
  by (simp add: hexed_def Hero_init_def or_empty_def dict_comp_def lower_defs)

lemma half_not_int: "(1 / 2 :: real) \<notin> \<int>"
proof
  assume "(1 / 2 :: real) \<in> \<int>"
  then obtain k :: int where "1 / 2 = (of_int k :: real)" by (auto elim: Ints_cases)
  then have "(1 :: real) = of_int (2 * k)" by simp
  then have "(1 :: int) = 2 * k" using of_int_eq_iff [of 1 "2 * k", where ?'a = real] by simp
  then show False by presburger
qed

lemma hexed_raises:
  "compute_score ''Midtown'' ''dps'' (3 / 5) (7 / 20) (1 / 20) hexed = Inl TypeError"
  by (simp add: compute_score_def map_role_bonus_multiplier_def dict_get_def lower_maps
      lower_dps hexed_stored py_pow_def half_not_int)

text \<open>
  Outside the valid queries the power need not be a real number: a negative multiplier under
  the default bonus weight makes the score, and with it the whole query, raise.
\<close>

lemma recommend_raises:
  "\<not> valid_query [hexed] ''DPS'' ''Midtown'' (1 / 20)"
  "recommend [hexed] ''DPS'' ''Midtown'' 3 (3 / 5) (7 / 20) (1 / 20) = Inl TypeError"
proof -
  have r: "roles hexed = [''dps'']" by (simp add: hexed_def Hero_init_def lower_defs)
  then show "\<not> valid_query [hexed] ''DPS'' ''Midtown'' (1 / 20)"
    by (simp add: valid_query_def candidates_def spec_bonus_def lower_dps lower_maps hexed_stored)
  from r show "recommend [hexed] ''DPS'' ''Midtown'' 3 (3 / 5) (7 / 20) (1 / 20) = Inl TypeError"
    by (simp add: recommend_def candidates_def lower_dps hexed_raises)
qed

theorem missing_data_defaults_witness:
  "map_scores magneto (lower ''Midtown'') = None
   \<and> raw_map_score magneto ''Midtown'' = 0
   \<and> compute_score ''Midtown'' (lower ''DPS'') (3 / 5) (7 / 20) (1 / 20) magneto = Inr (77 / 250)
   \<and> role_proficiencies echo_lower (lower ''Scout'') = None
   \<and> role_proficiency echo_lower (lower ''Scout'') = 0
   \<and> map_role_bonus echo_lower (lower ''Midtown'', lower ''Scout'') = None
   \<and> map_role_bonus_multiplier echo_lower ''Midtown'' (lower ''Scout'') = 1
   \<and> compute_score ''Midtown'' (lower ''Scout'') (3 / 5) (7 / 20) (1 / 20) echo_lower = Inr (3 / 10)
   \<and> map_scores echo_lower (lower ''Krakoa'') = None
   \<and> map_role_bonus echo_lower (lower ''Krakoa'', lower ''Scout'') = None
   \<and> compute_score ''Krakoa'' (lower ''Scout'') (3 / 5) (7 / 20) (1 / 20) echo_lower = Inr 0
   \<and> compute_score ''Midtown'' (lower ''DPS'') (3 / 5) (7 / 20) (1 / 20) hexed = Inl TypeError
   \<and> map_role_bonus hexed (lower ''Midtown'', lower ''DPS'') \<noteq> None"
proof -
  note m = missing_data_defaults [of magneto "''Midtown''" "''DPS''" "3 / 5" "7 / 20" "1 / 20"]
  note e = missing_data_defaults [of echo_lower "''Midtown''" "''Scout''" "3 / 5" "7 / 20" "1 / 20"]
  note k = missing_data_defaults [of echo_lower "''Krakoa''" "''Scout''" "3 / 5" "7 / 20" "1 / 20"]
  note x = missing_data_defaults [of hexed "''Midtown''" "''DPS''" "3 / 5" "7 / 20" "1 / 20"]
  have m0: "map_scores magneto (lower ''Midtown'') = None"
    by (simp add: lower_maps magneto_stored)
  with m have m1: "raw_map_score magneto ''Midtown'' = 0" by blast
  have mb: "map_role_bonus magneto (lower ''Midtown'', lower ''DPS'') = None"
    by (simp add: lower_maps lower_dps magneto_stored)
  with m have "compute_score ''Midtown'' (lower ''DPS'') (3 / 5) (7 / 20) (1 / 20) magneto
        = Inr (py_round (max 0 (min 1 (raw_map_score magneto ''Midtown'' / 10)) * (3 / 5)
                         + role_proficiency magneto (lower ''DPS'') * (7 / 20)) 4)"
    by blast
  then have m2: "compute_score ''Midtown'' (lower ''DPS'') (3 / 5) (7 / 20) (1 / 20) magneto
        = Inr (77 / 250)"
    by (simp add: m1 role_proficiency_def dict_get_def lower_dps magneto_stored py_round_def
        round_half_even_def)
  have e0: "role_proficiencies echo_lower (lower ''Scout'') = None"
    and e1: "map_role_bonus echo_lower (lower ''Midtown'', lower ''Scout'') = None"
    by (simp_all add: lower_maps lower_scout echo_stored)
  from e e0 have e2: "role_proficiency echo_lower (lower ''Scout'') = 0" by blast
  from e e1 have e3: "map_role_bonus_multiplier echo_lower ''Midtown'' (lower ''Scout'') = 1"
    and "compute_score ''Midtown'' (lower ''Scout'') (3 / 5) (7 / 20) (1 / 20) echo_lower
        = Inr (py_round (max 0 (min 1 (raw_map_score echo_lower ''Midtown'' / 10)) * (3 / 5)
                         + role_proficiency echo_lower (lower ''Scout'') * (7 / 20)) 4)"
    by blast+
  then have e4: "compute_score ''Midtown'' (lower ''Scout'') (3 / 5) (7 / 20) (1 / 20) echo_lower
        = Inr (3 / 10)"
    by (simp add: e2 raw_map_score_def dict_get_def lower_maps echo_stored py_round_def
        round_half_even_def)
  have k0: "map_scores echo_lower (lower ''Krakoa'') = None"
    and k1: "map_role_bonus echo_lower (lower ''Krakoa'', lower ''Scout'') = None"
    by (simp_all add: lower_maps lower_scout echo_stored)
  from k k0 e0 k1
  have k2: "compute_score ''Krakoa'' (lower ''Scout'') (3 / 5) (7 / 20) (1 / 20) echo_lower = Inr 0"
    by blast
  have x0: "compute_score ''Midtown'' (lower ''DPS'') (3 / 5) (7 / 20) (1 / 20) hexed = Inl TypeError"
    by (simp add: lower_dps hexed_raises)
  with x have x1: "map_role_bonus hexed (lower ''Midtown'', lower ''DPS'') \<noteq> None" by blast
  from m0 m1 m2 e0 e2 e1 e3 e4 k0 k1 k2 x0 x1 show ?thesis by blast
qed


text \<open>
  C6, amended. For an entity whose bonus multiplier for the pair is 1 and whose proficiency
  for the role is at most 1, and for weights that are not negative, the base is at most
  \<open>mapWeight + roleWeight\<close>, the score is the rounded base, and so the score is at most
  \<open>mapWeight + roleWeight + 0.00005\<close>.
\<close>

theorem score_bound:
  assumes "map_role_bonus_multiplier h map_name (lower role) = 1"
    and "role_proficiency h (lower role) \<le> 1"
    and "0 \<le> mw" and "0 \<le> rw"
  shows "\<exists>base. base \<le> mw + rw
           \<and> compute_score map_name (lower role) mw rw bw h = Inr (py_round base 4)
           \<and> py_round base 4 \<le> mw + rw + 5 / 100000"
proof -
  let ?norm = "max 0 (min 1 (raw_map_score h map_name / 10))"
  let ?base = "?norm * mw + role_proficiency h (lower role) * rw"
  have "?norm \<le> 1" by simp
  with \<open>0 \<le> mw\<close> have "?norm * mw \<le> 1 * mw" by (intro mult_right_mono)
  moreover from assms(2) \<open>0 \<le> rw\<close> have "role_proficiency h (lower role) * rw \<le> 1 * rw"
    by (intro mult_right_mono)
  ultimately have b: "?base \<le> mw + rw" by simp
  have c: "compute_score map_name (lower role) mw rw bw h = Inr (py_round ?base 4)"
    using assms(1) by (simp add: compute_score_def py_pow_one)
  have "py_round ?base 4 \<le> ?base + 5 / 100000" by (rule py_round_upper)
  with b have "py_round ?base 4 \<le> mw + rw + 5 / 100000" by simp
  with b c show ?thesis by blast
qed

lemma ace_accessors:
  "map_role_bonus_multiplier ace ''midtown'' ''dps'' = 1" "role_proficiency ace ''dps'' = 1"
  "raw_map_score ace ''midtown'' = 10"
  by (simp_all add: ace_def score_defs lower_defs)

lemma ace_score:
  "compute_score ''midtown'' ''dps'' (60006 / 100000) (35 / 100) (5 / 100) ace = Inr (9501 / 10000)"
  by (simp add: compute_score_def ace_accessors py_pow_def py_round_def round_half_even_def)

theorem score_bound_witness:
  "map_role_bonus_multiplier ace ''midtown'' (lower ''DPS'') = 1
   \<and> role_proficiency ace (lower ''DPS'') \<le> 1
   \<and> (0 :: real) \<le> 60006 / 100000 \<and> (0 :: real) \<le> 35 / 100
   \<and> compute_score ''midtown'' (lower ''DPS'') (60006 / 100000) (35 / 100) (5 / 100) ace
       = Inr (9501 / 10000)
   \<and> (9501 / 10000 :: real) \<le> 60006 / 100000 + 35 / 100 + 5 / 100000"
proof -
  have a: "map_role_bonus_multiplier ace ''midtown'' (lower ''DPS'') = 1"
    and b: "role_proficiency ace (lower ''DPS'') \<le> 1"
    by (simp_all add: lower_dps ace_accessors)
  have c: "compute_score ''midtown'' (lower ''DPS'') (60006 / 100000) (35 / 100) (5 / 100) ace
       = Inr (9501 / 10000)"
    by (simp only: lower_dps ace_score)
  from score_bound [OF a b, of "60006 / 100000" "35 / 100" "5 / 100"] c
  have "(9501 / 10000 :: real) \<le> 60006 / 100000 + 35 / 100 + 5 / 100000" by auto
  with a b c show ?thesis by simp
qed

text \<open>
  C6 as stated fails. With a context score of 10, a proficiency of 1, no bonus and the
  weights 0.60006 and 0.35 the base is 0.95006, which is rounded up to 0.9501, above the sum
  of the weights. And a stored proficiency above 1 is not clamped: with the default weights
  it gives a score of 1.4.
\<close>

theorem score_bound_counterexample:
  "map_role_bonus_multiplier ace ''midtown'' (lower ''DPS'') = 1
   \<and> compute_score ''midtown'' (lower ''DPS'') (60006 / 100000) (35 / 100) (5 / 100) ace
       = Inr (9501 / 10000)
   \<and> \<not> (9501 / 10000 :: real) \<le> 60006 / 100000 + 35 / 100
   \<and> recommend [ace] ''DPS'' ''midtown'' 3 (60006 / 100000) (35 / 100) (5 / 100)
       = Inr [(ace, 9501 / 10000)]
   \<and> map_role_bonus_multiplier overfit ''midtown'' (lower ''DPS'') = 1
   \<and> compute_score ''midtown'' (lower ''DPS'') (6 / 10) (35 / 100) (5 / 100) overfit
       = Inr (14 / 10)
   \<and> \<not> (14 / 10 :: real) \<le> 6 / 10 + 35 / 100"
proof -
  have "roles ace = [''dps'']" by (simp add: ace_def Hero_init_def lower_defs)
  then have "recommend [ace] ''DPS'' ''midtown'' 3 (60006 / 100000) (35 / 100) (5 / 100)
       = Inr [(ace, 9501 / 10000)]"
    using ace_score by (simp add: recommend_def candidates_def lower_dps slice_to_def)
  moreover have "map_role_bonus_multiplier overfit ''midtown'' ''dps'' = 1"
    "compute_score ''midtown'' ''dps'' (6 / 10) (35 / 100) (5 / 100) overfit = Inr (14 / 10)"
    by (simp_all add: overfit_def score_defs lower_defs)
  ultimately show ?thesis
    using ace_score by (simp add: lower_dps ace_accessors)
qed

subsection \<open>The scenario of the specification\<close>

lemma round_half_even_unique:
  assumes "of_int n - 1 / 2 < y" "y < of_int n + 1 / 2"
  shows "round_half_even y = n"
proof -
  have "\<lfloor>y\<rfloor> = n \<or> \<lfloor>y\<rfloor> = n - 1" using assms by linarith
  then show ?thesis
  proof
    assume f: "\<lfloor>y\<rfloor> = n"
    with assms have "y - of_int n < 1 / 2" by simp
    with f show ?thesis by (simp add: round_half_even_def)
  next
    assume f: "\<lfloor>y\<rfloor> = n - 1"
    with assms have "1 / 2 < y - of_int (n - 1)" by simp
    with f show ?thesis by (simp add: round_half_even_def)
  qed
qed

lemma py_round_unique:
  assumes "of_int n - 1 / 2 < x * 10 ^ 4" "x * 10 ^ 4 < of_int n + 1 / 2"
  shows "py_round x 4 = of_int n / 10 ^ 4"
  using assms by (simp add: py_round_def round_half_even_unique)

lemma spider_man_accessors:
  "raw_map_score spider_man ''midtown'' = 19 / 2" "role_proficiency spider_man ''dps'' = 19 / 20"
  "map_role_bonus_multiplier spider_man ''midtown'' ''dps'' = 21 / 20"
  by (simp_all add: spider_man_def score_defs lower_defs)

lemma sqrt_21_20: "(102468 / 100000 :: real) < sqrt (21 / 20)" "sqrt (21 / 20) < (102471 / 100000 :: real)"
proof -
  show "(102468 / 100000 :: real) < sqrt (21 / 20)"
    by (rule real_less_rsqrt) (simp add: power2_eq_square)
  show "sqrt (21 / 20) < (102471 / 100000 :: real)"
    by (rule real_less_lsqrt) (simp_all add: power2_eq_square)
qed

lemma spider_man_round: "py_round (361 * sqrt (21 / 20) / 400) 4 = 578 / 625"
proof -
  have "py_round (361 * sqrt (21 / 20) / 400) 4 = of_int 9248 / 10 ^ 4"
    using sqrt_21_20 by (intro py_round_unique) simp_all
  then show ?thesis by simp
qed


lemma candidates_dps:
  "candidates HEROES ''DPS'' =
     [spider_man, wolverine, storm, magneto, iron_man, black_panther, hulk, scarlet_witch,
      punisher, black_widow]"
  using roles_HEROES by (simp add: candidates_def HEROES_def lower_dps)

lemma sqrt_26_25: "(101979 / 100000 :: real) < sqrt (26 / 25)" "sqrt (26 / 25) < (101981 / 100000 :: real)"
proof -
  show "(101979 / 100000 :: real) < sqrt (26 / 25)"
    by (rule real_less_rsqrt) (simp add: power2_eq_square)
  show "sqrt (26 / 25) < (101981 / 100000 :: real)"
    by (rule real_less_lsqrt) (simp_all add: power2_eq_square)
qed

lemma iron_man_round: "py_round (843 * sqrt (26 / 25) / 1000) 4 = 8597 / 10000"
proof -
  have "py_round (843 * sqrt (26 / 25) / 1000) 4 = of_int 8597 / 10 ^ 4"
    using sqrt_26_25 by (intro py_round_unique) simp_all
  then show ?thesis by simp
qed

lemma iron_man_accessors:
  "raw_map_score iron_man ''midtown'' = 44 / 5" "role_proficiency iron_man ''dps'' = 9 / 10"
  "map_role_bonus_multiplier iron_man ''midtown'' ''dps'' = 26 / 25"
  by (simp_all add: iron_man_def score_defs lower_defs)

lemma dps_scores:
  "compute_score ''midtown'' ''dps'' (3 / 5) (7 / 20) (1 / 20) spider_man = Inr (578 / 625)"
  "compute_score ''midtown'' ''dps'' (3 / 5) (7 / 20) (1 / 20) iron_man = Inr (8597 / 10000)"
  "compute_score ''midtown'' ''dps'' (3 / 5) (7 / 20) (1 / 20) wolverine = Inr (311 / 400)"
  "compute_score ''midtown'' ''dps'' (3 / 5) (7 / 20) (1 / 20) storm = Inr (49 / 200)"
  "compute_score ''midtown'' ''dps'' (3 / 5) (7 / 20) (1 / 20) magneto = Inr (77 / 250)"
  "compute_score ''midtown'' ''dps'' (3 / 5) (7 / 20) (1 / 20) black_panther = Inr (63 / 200)"
  "compute_score ''midtown'' ''dps'' (3 / 5) (7 / 20) (1 / 20) hulk = Inr (21 / 100)"
  "compute_score ''midtown'' ''dps'' (3 / 5) (7 / 20) (1 / 20) scarlet_witch = Inr (21 / 80)"
  "compute_score ''midtown'' ''dps'' (3 / 5) (7 / 20) (1 / 20) punisher = Inr (167 / 200)"
  "compute_score ''midtown'' ''dps'' (3 / 5) (7 / 20) (1 / 20) black_widow = Inr (157 / 200)"
proof -
  have p: "py_pow (21 / 20) (1 / 2) = Inr (sqrt (21 / 20))"
    "py_pow (26 / 25) (1 / 2) = Inr (sqrt (26 / 25))"
    by (simp_all add: py_pow_def powr_half_sqrt)
  show "compute_score ''midtown'' ''dps'' (3 / 5) (7 / 20) (1 / 20) spider_man = Inr (578 / 625)"
    by (simp add: compute_score_def spider_man_accessors p spider_man_round)
  show "compute_score ''midtown'' ''dps'' (3 / 5) (7 / 20) (1 / 20) iron_man = Inr (8597 / 10000)"
    by (simp add: compute_score_def iron_man_accessors p iron_man_round)
  show "compute_score ''midtown'' ''dps'' (3 / 5) (7 / 20) (1 / 20) wolverine = Inr (311 / 400)"
    by (simp add: wolverine_def score_defs lower_defs)
  show "compute_score ''midtown'' ''dps'' (3 / 5) (7 / 20) (1 / 20) storm = Inr (49 / 200)"
    by (simp add: storm_def score_defs lower_defs)
  show "compute_score ''midtown'' ''dps'' (3 / 5) (7 / 20) (1 / 20) magneto = Inr (77 / 250)"
    by (simp add: magneto_def score_defs lower_defs)
  show "compute_score ''midtown'' ''dps'' (3 / 5) (7 / 20) (1 / 20) black_panther = Inr (63 / 200)"
    by (simp add: black_panther_def score_defs lower_defs)
  show "compute_score ''midtown'' ''dps'' (3 / 5) (7 / 20) (1 / 20) hulk = Inr (21 / 100)"
    by (simp add: hulk_def score_defs lower_defs)
  show "compute_score ''midtown'' ''dps'' (3 / 5) (7 / 20) (1 / 20) scarlet_witch = Inr (21 / 80)"
    by (simp add: scarlet_witch_def score_defs lower_defs)
  show "compute_score ''midtown'' ''dps'' (3 / 5) (7 / 20) (1 / 20) punisher = Inr (167 / 200)"
    by (simp add: punisher_def score_defs lower_defs)
  show "compute_score ''midtown'' ''dps'' (3 / 5) (7 / 20) (1 / 20) black_widow = Inr (157 / 200)"
    by (simp add: black_widow_def score_defs lower_defs)
qed

lemma dps_names:
  "lower (name spider_man) = ''spider-man''" "lower (name wolverine) = ''wolverine''"
  "lower (name storm) = ''storm''" "lower (name magneto) = ''magneto''"
  "lower (name iron_man) = ''iron man''" "lower (name black_panther) = ''black panther''"
  "lower (name hulk) = ''hulk''" "lower (name scarlet_witch) = ''scarlet witch''"
  "lower (name punisher) = ''punisher''" "lower (name black_widow) = ''black widow''"
  by (simp_all add: hero_defs Hero_init_def lower_defs)

text \<open>The query of \<^verbatim>\<open>main\<close> for a DPS on Midtown: the three best of ten candidates.\<close>

lemma recommend_dps_midtown:
  "recommend HEROES ''DPS'' ''midtown'' 3 (3 / 5) (7 / 20) (1 / 20) =
     Inr [(spider_man, 578 / 625), (iron_man, 8597 / 10000), (punisher, 167 / 200)]"
  by (simp add: recommend_def Let_def lower_dps candidates_dps dps_scores sort_key_of_def
      dps_names slice_to_def)


text \<open>
  C9. Spider-Man has the context score 9.5 for midtown, the proficiency 0.95 for DPS and
  the bonus 1.05 for the pair. With the default weights the base of the query for a DPS on
  midtown is 0.9025, the power is the square root of 1.05, and the score is 0.9248, the best of the
  three that the query returns.
\<close>

theorem spider_man_midtown_dps:
  "raw_map_score spider_man ''midtown'' = 9.5
   \<and> role_proficiency spider_man (lower ''DPS'') = 0.95
   \<and> map_role_bonus_multiplier spider_man ''midtown'' (lower ''DPS'') = 1.05
   \<and> max 0 (min 1 (raw_map_score spider_man ''midtown'' / 10)) * 0.6
       + role_proficiency spider_man (lower ''DPS'') * 0.35 = 0.9025
   \<and> py_pow 1.05 (0.05 * 10) = Inr (1.05 powr 0.5)
   \<and> compute_score ''midtown'' (lower ''DPS'') 0.6 0.35 0.05 spider_man
       = Inr (py_round (0.9025 * 1.05 powr 0.5) 4)
   \<and> compute_score ''midtown'' (lower ''DPS'') 0.6 0.35 0.05 spider_man = Inr 0.9248
   \<and> recommend HEROES ''DPS'' ''midtown'' 3 0.6 0.35 0.05
       = Inr [(spider_man, 0.9248), (iron_man, 0.8597), (punisher, 0.835)]"
proof -
  have p: "py_pow (21 / 20) (1 / 2) = Inr (sqrt (21 / 20))"
    by (simp add: py_pow_def powr_half_sqrt)
  show ?thesis
    by (simp add: lower_dps spider_man_accessors p dps_scores spider_man_round powr_half_sqrt
        recommend_dps_midtown)
qed

subsection \<open>The score and the formula of the specification\<close>









subsection \<open>Case outside ASCII\<close>

lemma lower_dp_long_s: "lower dp_long_s = dp_long_s"
  by (simp add: dp_long_s_def lower_defs)

lemma candidates_dp_long_s: "candidates HEROES dp_long_s = []"
  using roles_HEROES by (simp add: candidates_def HEROES_def lower_dp_long_s) (simp add: dp_long_s_def)

text \<open>
  C8 as stated fails: the role DPS is the role \<open>dp_long_s\<close> with the case of its
  characters changed, and the query for the one returns three entities, the query for the
  other none.
\<close>

theorem recommend_case_counterexample:
  "recommend HEROES ''DPS'' ''midtown'' 3 (3 / 5) (7 / 20) (1 / 20)
     = Inr [(spider_man, 578 / 625), (iron_man, 8597 / 10000), (punisher, 167 / 200)]
   \<and> recommend HEROES dp_long_s ''midtown'' 3 (3 / 5) (7 / 20) (1 / 20) = Inr []
   \<and> recommend HEROES ''DPS'' ''midtown'' 3 (3 / 5) (7 / 20) (1 / 20)
     \<noteq> recommend HEROES dp_long_s ''midtown'' 3 (3 / 5) (7 / 20) (1 / 20)"
proof -
  have "recommend HEROES dp_long_s ''midtown'' 3 (3 / 5) (7 / 20) (1 / 20) = Inr []"
    by (simp add: recommend_def Let_def candidates_dp_long_s slice_to_def)
  then show ?thesis by (simp add: recommend_dps_midtown)
qed

end
